theory Spec2Isabelle
  imports Main "HOL-Library.Char_ord" "HOL-Library.List_Lexorder" "HOL-Library.Multiset"
begin

section \<open>Python and pandas primitives used by the notebooks\<close>

text \<open>
  \<^verbatim>\<open>s.split(sep)\<close> for a one-character separator: the pieces between the
  occurrences of the separator, empty pieces kept, so \<^verbatim>\<open>"".split(";") == [""]\<close>.
\<close>

fun split_sep :: "char \<Rightarrow> string \<Rightarrow> string list" where
  "split_sep sep [] = [[]]"
| "split_sep sep (c # cs) =
     (if c = sep then [] # split_sep sep cs
      else (case split_sep sep cs of
              [] \<Rightarrow> [[c]]
            | w # ws \<Rightarrow> (c # w) # ws))"

text \<open>\<^verbatim>\<open>sep.join(xs)\<close> for a one-character separator.\<close>

fun join_sep :: "char \<Rightarrow> string list \<Rightarrow> string" where
  "join_sep sep [] = []"
| "join_sep sep [x] = x"
| "join_sep sep (x # y # ys) = x @ sep # join_sep sep (y # ys)"

text \<open>
  \<^verbatim>\<open>s.title()\<close> on ASCII text: a letter that follows a letter is lower-cased, any
  other letter is upper-cased.
\<close>

definition is_lower :: "char \<Rightarrow> bool" where
  "is_lower c = (CHR ''a'' \<le> c \<and> c \<le> CHR ''z'')"

definition is_upper :: "char \<Rightarrow> bool" where
  "is_upper c = (CHR ''A'' \<le> c \<and> c \<le> CHR ''Z'')"

definition to_upper :: "char \<Rightarrow> char" where
  "to_upper c = (if is_lower c then char_of (of_char c - (32::nat)) else c)"

definition to_lower :: "char \<Rightarrow> char" where
  "to_lower c = (if is_upper c then char_of (of_char c + (32::nat)) else c)"

fun title_from :: "bool \<Rightarrow> string \<Rightarrow> string" where
  "title_from after_letter [] = []"
| "title_from after_letter (c # cs) =
     (if is_lower c \<or> is_upper c
      then (if after_letter then to_lower c else to_upper c) # title_from True cs
      else c # title_from False cs)"

definition str_title :: "string \<Rightarrow> string" where
  "str_title s = title_from False s"

text \<open>
  The exceptions the modelled code can raise: a column that is not in a frame
  (\<^verbatim>\<open>df[col]\<close>) and a column read as an attribute (\<^verbatim>\<open>df.col\<close>).
\<close>

datatype error = KeyError string | AttributeError string

text \<open>
  A shapely geometry, as far as the notebooks look at it: its \<^verbatim>\<open>geom_type\<close> string
  and its \<^verbatim>\<open>wkt\<close> text. A row of the aggregated collection always carries one.
\<close>

record shape =
  geom_type :: string
  wkt :: string

text \<open>\<^verbatim>\<open>WKTElement(x.wkt, srid=4326)\<close> of geoalchemy2.\<close>

datatype wkt_element = WKTElement (data: string) (srid: int)

text \<open>
  A row of a GeoDataFrame is its attribute columns together with the geometry column;
  a row prepared for the spatial store has the same attributes and the column
  \<^verbatim>\<open>geom\<close> in place of \<^verbatim>\<open>geometry\<close>.
\<close>

datatype 'a geo_row = GeoRow (attrs: 'a) (geometry: shape)

datatype 'a pg_row = PgRow (pg_attrs: 'a) (geom: wkt_element)

text \<open>
  Where the index of a data frame matters it is kept with the rows: a frame is then a
  list of (label, row) pairs. \<^verbatim>\<open>df[mask].index\<close> lists the labels of the selected rows
  and \<^verbatim>\<open>df.drop(labels)\<close> removes every row whose label is among them.
\<close>

definition index_where :: "('r \<Rightarrow> bool) \<Rightarrow> ('i \<times> 'r) list \<Rightarrow> 'i list" where
  "index_where p df = map fst (filter (\<lambda>(i, r). p r) df)"

definition drop_labels :: "'i list \<Rightarrow> ('i \<times> 'r) list \<Rightarrow> ('i \<times> 'r) list" where
  "drop_labels labels df = filter (\<lambda>(i, r). i \<notin> set labels) df"

text \<open>
  \<^verbatim>\<open>list(set(xs))\<close>: the distinct values of \<^verbatim>\<open>xs\<close>, in an order Python does not
  specify. The model keeps the first occurrences; no statement below depends on the order.
  Values are compared with \<^verbatim>\<open>==\<close>; the lists it is applied to come from a table read
  with \<^verbatim>\<open>pd.read_sql\<close>, which holds None where the store holds NULL, so that no NaN
  (which is not equal to itself) is among them.
\<close>

definition list_set :: "'a list \<Rightarrow> 'a list" where
  "list_set xs = remdups xs"

section \<open>Source Normalizer: \<^verbatim>\<open>clean_synth_df\<close>\<close>

text \<open>
  The attribute columns the code reads from the five ecoregion shapefiles. The codes
  and names are text columns, so the f-strings of the code concatenate them as they are.
  Each level also carries the codes of the levels above it.
\<close>

record sourced =
  source :: string

record na_er1_row = sourced +
  NA_L1CODE :: string
  NA_L1NAME :: string

record na_er2_row = na_er1_row +
  NA_L2CODE :: string
  NA_L2NAME :: string

record na_er3_row = na_er2_row +
  NA_L3CODE :: string
  NA_L3NAME :: string

record conus_er3_row = na_er3_row +
  US_L3CODE :: string
  US_L3NAME :: string

record conus_er4_row = conus_er3_row +
  US_L4CODE :: string
  US_L4NAME :: string

text \<open>
  The common schema. \<^verbatim>\<open>part_of_identifiers\<close> is the serialized text until the
  Result Assembler splits it, hence the type parameter. A missing value (the column is
  not set for level 1, so the concatenation leaves NaN there, which
  \<^verbatim>\<open>where(pd.notnull(...), None)\<close> later turns into None) is \<open>None\<close> throughout.
\<close>

record 'p ecoregion = sourced +
  contextual_identifier :: string
  common_name :: string
  part_of_identifiers :: 'p

type_synonym region = "string option ecoregion"

definition clean_na_er1 :: "na_er1_row geo_row \<Rightarrow> region geo_row" where
  "clean_na_er1 row =
     GeoRow \<lparr>source = source (attrs row),
             contextual_identifier = ''NA_L1CODE:'' @ NA_L1CODE (attrs row),
             common_name = NA_L1NAME (attrs row),
             part_of_identifiers = None\<rparr>
            (geometry row)"

definition clean_na_er2 :: "na_er2_row geo_row \<Rightarrow> region geo_row" where
  "clean_na_er2 row =
     GeoRow \<lparr>source = source (attrs row),
             contextual_identifier = ''NA_L2CODE:'' @ NA_L2CODE (attrs row),
             common_name = NA_L2NAME (attrs row),
             part_of_identifiers = Some (''NA_L1CODE:'' @ NA_L1CODE (attrs row))\<rparr>
            (geometry row)"

definition clean_na_er3 :: "na_er3_row geo_row \<Rightarrow> region geo_row" where
  "clean_na_er3 row =
     GeoRow \<lparr>source = source (attrs row),
             contextual_identifier = ''NA_L3CODE:'' @ NA_L3CODE (attrs row),
             common_name = NA_L3NAME (attrs row),
             part_of_identifiers =
               Some (''NA_L1CODE:'' @ NA_L1CODE (attrs row)
                     @ '';NA_L2CODE:'' @ NA_L2CODE (attrs row))\<rparr>
            (geometry row)"

definition clean_conus_er3 :: "conus_er3_row geo_row \<Rightarrow> region geo_row" where
  "clean_conus_er3 row =
     GeoRow \<lparr>source = source (attrs row),
             contextual_identifier = ''US_L3CODE:'' @ US_L3CODE (attrs row),
             common_name = US_L3NAME (attrs row),
             part_of_identifiers =
               Some (''NA_L1CODE:'' @ NA_L1CODE (attrs row)
                     @ '';NA_L2CODE:'' @ NA_L2CODE (attrs row)
                     @ '';NA_L3CODE:'' @ NA_L3CODE (attrs row))\<rparr>
            (geometry row)"

definition clean_conus_er4 :: "conus_er4_row geo_row \<Rightarrow> region geo_row" where
  "clean_conus_er4 row =
     GeoRow \<lparr>source = source (attrs row),
             contextual_identifier = ''US_L4CODE:'' @ US_L4CODE (attrs row),
             common_name = US_L4NAME (attrs row),
             part_of_identifiers =
               Some (''NA_L1CODE:'' @ NA_L1CODE (attrs row)
                     @ '';NA_L2CODE:'' @ NA_L2CODE (attrs row)
                     @ '';NA_L3CODE:'' @ NA_L3CODE (attrs row)
                     @ '';US_L3CODE:'' @ US_L3CODE (attrs row))\<rparr>
            (geometry row)"

definition clean_synth_df ::
  "na_er1_row geo_row list \<Rightarrow> na_er2_row geo_row list \<Rightarrow> na_er3_row geo_row list \<Rightarrow>
   conus_er3_row geo_row list \<Rightarrow> conus_er4_row geo_row list \<Rightarrow>
   region geo_row list \<times> region geo_row list \<times> region geo_row list \<times>
   region geo_row list \<times> region geo_row list" where
  "clean_synth_df na_er1 na_er2 na_er3 conus_er3 conus_er4 =
     (map clean_na_er1 na_er1, map clean_na_er2 na_er2, map clean_na_er3 na_er3,
      map clean_conus_er3 conus_er3, map clean_conus_er4 conus_er4)"

text \<open>
  The serialized form \<^verbatim>\<open>clean_synth_df\<close> gives to the sequence of a record's ancestor
  identifiers: the identifiers joined by semicolons, and no value for a record without
  ancestors.
\<close>

definition serialize_part_of :: "string list \<Rightarrow> string option" where
  "serialize_part_of ancestors =
     (if ancestors = [] then None else Some (join_sep CHR '';'' ancestors))"

text \<open>
  The first version of the notebook does the same steps in a cell, before they were
  gathered into \<^verbatim>\<open>clean_synth_df\<close>. Its level-3 step writes the level-1 tag:
  \<^verbatim>\<open>f"NA_L1CODE:{row.NA_L3CODE}"\<close>. The other four steps are those above.
\<close>

definition original_clean_na_er3 :: "na_er3_row geo_row \<Rightarrow> region geo_row" where
  "original_clean_na_er3 row =
     GeoRow \<lparr>source = source (attrs row),
             contextual_identifier = ''NA_L1CODE:'' @ NA_L3CODE (attrs row),
             common_name = NA_L3NAME (attrs row),
             part_of_identifiers =
               Some (''NA_L1CODE:'' @ NA_L1CODE (attrs row)
                     @ '';NA_L2CODE:'' @ NA_L2CODE (attrs row))\<rparr>
            (geometry row)"

section \<open>Dataset Combiner and Hierarchical Aggregator\<close>

text \<open>\<^verbatim>\<open>pd.concat([...], ignore_index=True, sort=False)\<close> of five frames of one schema.\<close>

definition combine_source_data ::
  "region geo_row list \<Rightarrow> region geo_row list \<Rightarrow> region geo_row list \<Rightarrow>
   region geo_row list \<Rightarrow> region geo_row list \<Rightarrow> region geo_row list" where
  "combine_source_data na_er1 na_er2 na_er3 conus_er3 conus_er4 =
     na_er1 @ na_er2 @ na_er3 @ conus_er3 @ conus_er4"

text \<open>
  \<^verbatim>\<open>combined_source.dissolve(by='contextual_identifier')\<close> of geopandas: the rows
  are grouped by the key, the groups come out sorted by key, every attribute column takes
  its first non-null value in the group (\<^verbatim>\<open>aggfunc='first'\<close>) and the geometries of
  the group are merged by \<^verbatim>\<open>unary_union\<close>. The geometric union belongs to shapely and
  is a parameter here. Python orders strings by code point, which is the lexicographic
  order of the characters used for \<^typ>\<open>string\<close>.
\<close>

definition first_notnull :: "'a option list \<Rightarrow> 'a option" where
  "first_notnull vs =
     (case filter (\<lambda>v. \<not> Option.is_none v) vs of [] \<Rightarrow> None | v # _ \<Rightarrow> v)"

fun dissolve_group :: "(shape list \<Rightarrow> shape) \<Rightarrow> region geo_row list \<Rightarrow> region geo_row option" where
  "dissolve_group unary_union [] = None"
| "dissolve_group unary_union (r # rs) =
     Some (GeoRow \<lparr>source = source (attrs r),
                   contextual_identifier = contextual_identifier (attrs r),
                   common_name = common_name (attrs r),
                   part_of_identifiers =
                     first_notnull (map (\<lambda>r. part_of_identifiers (attrs r)) (r # rs))\<rparr>
                  (unary_union (map geometry (r # rs))))"

definition group_keys :: "region geo_row list \<Rightarrow> string list" where
  "group_keys df = sort (remdups (map (\<lambda>r. contextual_identifier (attrs r)) df))"

definition combine_geometries ::
  "(shape list \<Rightarrow> shape) \<Rightarrow> region geo_row list \<Rightarrow> region geo_row list" where
  "combine_geometries unary_union combined_source =
     List.map_filter
       (\<lambda>k. dissolve_group unary_union
              (filter (\<lambda>r. contextual_identifier (attrs r) = k) combined_source))
       (group_keys combined_source)"

section \<open>Identifier Resolver: \<^verbatim>\<open>prepare_wikidata_info\<close>\<close>

record ('p, 'c) ecoregion_wd = "'p ecoregion" +
  x :: 'c
  y :: 'c
  wikidata_id :: "string option"

text \<open>
  The calls of \<^verbatim>\<open>lookup_wd\<close> a run makes. \<^verbatim>\<open>DataFrame.apply(f, axis=1)\<close> calls
  \<^verbatim>\<open>f\<close> once for every row; on a frame without rows it calls \<^verbatim>\<open>f\<close> once on a row of
  NaN values, to find out what \<^verbatim>\<open>f\<close> returns, and gives an empty series. That one call
  belongs to no row and its result is not kept.
\<close>

datatype 'i lookup_call = RowCall 'i string | ProbeCall

text \<open>
  \<^verbatim>\<open>reset_index\<close> numbers the rows from 0. The centroid, \<^verbatim>\<open>str.title\<close> and
  \<^verbatim>\<open>lookup_wd\<close> (of the module \<^verbatim>\<open>functions\<close>) are parameters. The lookup is applied
  to the rows selected by \<^verbatim>\<open>source.isin(["US_Eco_Level3","US_Eco_Level4"])\<close> only;
  assigning the resulting series aligns it on the index and leaves NaN in the other rows,
  which \<^verbatim>\<open>where(pd.notnull(...), None)\<close> replaces by None. Besides the frame the model
  returns the calls of \<^verbatim>\<open>lookup_wd\<close> that were made, each row call with the label of
  its row and its argument.
\<close>

definition prepare_wikidata_info ::
  "(shape \<Rightarrow> 'c \<times> 'c) \<Rightarrow> (string \<Rightarrow> string) \<Rightarrow> (string \<Rightarrow> string option) \<Rightarrow>
   region geo_row list \<Rightarrow>
   (nat \<times> (string option, 'c) ecoregion_wd geo_row) list \<times> nat lookup_call list" where
  "prepare_wikidata_info centroid title lookup_wd combined_source =
     (let indexed = enumerate 0 combined_source;
          selected = filter (\<lambda>(i, r). source (attrs r) \<in> set [''US_Eco_Level3'', ''US_Eco_Level4''])
                            indexed;
          looked_up = map (\<lambda>(i, r). (i, lookup_wd (contextual_identifier (attrs r)))) selected
      in (map (\<lambda>(i, r).
                (i, GeoRow \<lparr>source = source (attrs r),
                            contextual_identifier = contextual_identifier (attrs r),
                            common_name = title (common_name (attrs r)),
                            part_of_identifiers = part_of_identifiers (attrs r),
                            x = fst (centroid (geometry r)),
                            y = snd (centroid (geometry r)),
                            wikidata_id = (case map_of looked_up i of
                                             None \<Rightarrow> None
                                           | Some v \<Rightarrow> v)\<rparr>
                           (geometry r)))
              indexed,
          if selected = [] then [ProbeCall]
          else map (\<lambda>(i, r). RowCall i (contextual_identifier (attrs r))) selected))"

text \<open>
  The first version of the notebook keeps the key as the index and calls the earlier,
  three-argument \<^verbatim>\<open>lookup_wd("Ecoregions", row["common_name"], None)\<close> on every row,
  after the names were title-cased. A row call is returned with the label of its row and
  the name that was looked up.
\<close>

definition original_wikidata_info ::
  "(shape \<Rightarrow> 'c \<times> 'c) \<Rightarrow> (string \<Rightarrow> string) \<Rightarrow>
   (string \<Rightarrow> string \<Rightarrow> string option \<Rightarrow> string option) \<Rightarrow>
   region geo_row list \<Rightarrow>
   (string \<times> (string option, 'c) ecoregion_wd geo_row) list \<times> string lookup_call list" where
  "original_wikidata_info centroid title lookup_wd simplified_ecoregions =
     (let indexed = map (\<lambda>r. (contextual_identifier (attrs r), r)) simplified_ecoregions
      in (map (\<lambda>(i, r).
                (i, GeoRow \<lparr>source = source (attrs r),
                            contextual_identifier = contextual_identifier (attrs r),
                            common_name = title (common_name (attrs r)),
                            part_of_identifiers = part_of_identifiers (attrs r),
                            x = fst (centroid (geometry r)),
                            y = snd (centroid (geometry r)),
                            wikidata_id =
                              lookup_wd ''Ecoregions'' (title (common_name (attrs r))) None\<rparr>
                           (geometry r)))
              indexed,
          if indexed = [] then [ProbeCall]
          else map (\<lambda>(i, r). RowCall i (title (common_name (attrs r)))) indexed))"

section \<open>Geometry Partitioner: \<^verbatim>\<open>prep_source_for_pg\<close>\<close>

definition to_pg :: "'a geo_row \<Rightarrow> 'a pg_row" where
  "to_pg r = PgRow (attrs r) (WKTElement (wkt (geometry r)) 4326)"

text \<open>Returns \<^verbatim>\<open>(dataset_multi, dataset_poly)\<close>.\<close>

definition prep_source_for_pg ::
  "('i \<times> 'a geo_row) list \<Rightarrow> ('i \<times> 'a pg_row) list \<times> ('i \<times> 'a pg_row) list" where
  "prep_source_for_pg combined_dataset =
     (let dataset_multi = combined_dataset;
          dataset_poly = combined_dataset;
          dataset_multi =
            drop_labels (index_where (\<lambda>r. geom_type (geometry r) = ''Polygon'') dataset_multi)
                        dataset_multi;
          dataset_poly =
            drop_labels (index_where (\<lambda>r. geom_type (geometry r) = ''MultiPolygon'') dataset_poly)
                        dataset_poly
      in (map (\<lambda>(i, r). (i, to_pg r)) dataset_multi,
          map (\<lambda>(i, r). (i, to_pg r)) dataset_poly))"

text \<open>
  The boundary notebook splits its collection in a cell, in place: the copy
  \<^verbatim>\<open>boundaries_multi\<close> loses the polygons and \<^verbatim>\<open>boundaries\<close> the multi-polygons.
  Returns \<^verbatim>\<open>(boundaries_multi, boundaries)\<close>.
\<close>

definition split_boundaries ::
  "('i \<times> 'a geo_row) list \<Rightarrow> ('i \<times> 'a pg_row) list \<times> ('i \<times> 'a pg_row) list" where
  "split_boundaries boundaries =
     (let boundaries_multi = boundaries;
          boundaries_multi =
            drop_labels (index_where (\<lambda>r. geom_type (geometry r) = ''Polygon'') boundaries_multi)
                        boundaries_multi;
          boundaries =
            drop_labels (index_where (\<lambda>r. geom_type (geometry r) = ''MultiPolygon'') boundaries)
                        boundaries
      in (map (\<lambda>(i, r). (i, to_pg r)) boundaries_multi,
          map (\<lambda>(i, r). (i, to_pg r)) boundaries))"

section \<open>Intersection Engine: the SQL of the materialized view\<close>

text \<open>
  One \<^verbatim>\<open>SELECT ... FROM boundaries AS b, ecoregions AS e WHERE ST_Intersects(b.geom, e.geom)\<close>.
  A table is given by the columns the query selects from it and its \<^verbatim>\<open>geom\<close> column;
  \<^verbatim>\<open>ST_Intersects\<close> belongs to the spatial store and is a parameter.
\<close>

definition st_join :: "('g \<Rightarrow> 'g \<Rightarrow> bool) \<Rightarrow> ('b \<times> 'g) list \<Rightarrow> ('e \<times> 'g) list \<Rightarrow> ('b \<times> 'e) list" where
  "st_join st_intersects bs es =
     concat (map (\<lambda>(b, bg). map (\<lambda>(e, eg). (b, e)) (filter (\<lambda>(e, eg). st_intersects bg eg) es)) bs)"

text \<open>
  The four selects over multi-polygon and polygon tables, joined by \<^verbatim>\<open>UNION\<close>, which
  removes duplicate rows.
\<close>

definition intersections ::
  "('g \<Rightarrow> 'g \<Rightarrow> bool) \<Rightarrow> ('b \<times> 'g) list \<Rightarrow> ('b \<times> 'g) list \<Rightarrow>
   ('e \<times> 'g) list \<Rightarrow> ('e \<times> 'g) list \<Rightarrow> ('b \<times> 'e) list" where
  "intersections st_intersects boundaries_m boundaries_p ecoregions_m ecoregions_p =
     remdups (st_join st_intersects boundaries_m ecoregions_m
              @ st_join st_intersects boundaries_m ecoregions_p
              @ st_join st_intersects boundaries_p ecoregions_m
              @ st_join st_intersects boundaries_p ecoregions_p)"

section \<open>Frames with columns known only at run time\<close>

text \<open>
  The intersections table read back from the store and the boundary collections have the
  columns their sources give them, so their rows are maps from column names to cells. A
  cell holds a text, a geometry, Python's None or the missing-value marker NaN of pandas.
\<close>

datatype cell = NaN | PyNone | Str string | Geom shape

record frame =
  columns :: "string list"
  rows :: "(string \<rightharpoonup> cell) list"

text \<open>
  The cell of a row in a column of its frame; a row that has no value for a column of the
  frame holds the missing-value marker there.
\<close>

definition cell_at :: "(string \<rightharpoonup> cell) \<Rightarrow> string \<Rightarrow> cell" where
  "cell_at r col = (case r col of None \<Rightarrow> NaN | Some v \<Rightarrow> v)"

text \<open>\<^verbatim>\<open>df[col]\<close>: the values of a column, or KeyError.\<close>

definition column_values :: "string \<Rightarrow> frame \<Rightarrow> error + cell list" where
  "column_values col df =
     (if col \<in> set (columns df)
      then Inr (map (\<lambda>r. cell_at r col) (rows df))
      else Inl (KeyError col))"

text \<open>
  \<^verbatim>\<open>df.loc[df.contextual_identifier == value]\<close>: the rows whose cell is that text. The
  column is read as an attribute of the frame.
\<close>

definition loc_contextual_identifier :: "string \<Rightarrow> frame \<Rightarrow> error + frame" where
  "loc_contextual_identifier v df =
     (if ''contextual_identifier'' \<in> set (columns df)
      then Inr (df\<lparr>rows := filter (\<lambda>r. r ''contextual_identifier'' = Some (Str v)) (rows df)\<rparr>)
      else Inl (AttributeError ''contextual_identifier''))"

section \<open>Result Assembler\<close>

text \<open>
  \<^verbatim>\<open>boundary_intersects_list(contextual_identifier, intersect_type="admin_id")\<close> of the
  function suite. The global \<^verbatim>\<open>df_intersections\<close> is the first argument and
  \<open>key\<close> stands for the parameter \<^verbatim>\<open>contextual_identifier\<close>.
\<close>

definition boundary_intersects_list :: "frame \<Rightarrow> string \<Rightarrow> string \<Rightarrow> error + cell list" where
  "boundary_intersects_list df_intersections key intersect_type =
     (case loc_contextual_identifier key df_intersections of
        Inl e \<Rightarrow> Inl e
      | Inr selected \<Rightarrow>
          (case column_values intersect_type selected of
             Inl e \<Rightarrow> Inl e
           | Inr intersecting_ids \<Rightarrow> Inr (list_set intersecting_ids)))"

text \<open>
  \<^verbatim>\<open>boundary_intersects_list(contextual_identifier)\<close> of the first version of the
  notebook: the \<^verbatim>\<open>wikidata_id\<close> column of the selected rows, as a list.
\<close>

definition original_boundary_intersects_list :: "frame \<Rightarrow> string \<Rightarrow> error + cell list" where
  "original_boundary_intersects_list df_intersections key =
     (case loc_contextual_identifier key df_intersections of
        Inl e \<Rightarrow> Inl e
      | Inr selected \<Rightarrow> column_values ''wikidata_id'' selected)"

text \<open>The lambda applied to \<^verbatim>\<open>part_of_identifiers\<close>: \<^verbatim>\<open>x.split(';') if x is not None else x\<close>.\<close>

definition parse_part_of :: "string option \<Rightarrow> string list option" where
  "parse_part_of v = (case v of None \<Rightarrow> None | Some s \<Rightarrow> Some (split_sep CHR '';'' s))"

text \<open>\<^verbatim>\<open>series.apply(f)\<close> of a function that can raise: the first exception ends it.\<close>

fun apply_series :: "('a \<Rightarrow> error + 'b) \<Rightarrow> 'a list \<Rightarrow> error + 'b list" where
  "apply_series f [] = Inr []"
| "apply_series f (v # vs) =
     (case f v of
        Inl e \<Rightarrow> Inl e
      | Inr w \<Rightarrow> (case apply_series f vs of Inl e \<Rightarrow> Inl e | Inr ws \<Rightarrow> Inr (w # ws)))"

record ('p, 'c) assembled = "('p, 'c) ecoregion_wd" +
  admin_intersects :: "cell list"
  country_intersects :: "cell list"

text \<open>
  \<^verbatim>\<open>recombine_ecoregions\<close>: the query selects the seven attribute columns of the two
  stored tables and joins them by \<^verbatim>\<open>UNION\<close>; then the three columns are computed one
  after the other.
\<close>

definition recombine_ecoregions ::
  "frame \<Rightarrow> (string option, 'c) ecoregion_wd pg_row list \<Rightarrow>
   (string option, 'c) ecoregion_wd pg_row list \<Rightarrow>
   error + (string list option, 'c) assembled list" where
  "recombine_ecoregions df_intersections ecoregions_m ecoregions_p =
     (let df_ecoregions = remdups (map pg_attrs ecoregions_m @ map pg_attrs ecoregions_p);
          parsed = map (\<lambda>r. parse_part_of (part_of_identifiers r)) df_ecoregions
      in case apply_series (\<lambda>k. boundary_intersects_list df_intersections k ''admin_id'')
                (map contextual_identifier df_ecoregions) of
           Inl e \<Rightarrow> Inl e
         | Inr admin \<Rightarrow>
             (case apply_series (\<lambda>k. boundary_intersects_list df_intersections k ''country_id'')
                     (map contextual_identifier df_ecoregions) of
                Inl e \<Rightarrow> Inl e
              | Inr country \<Rightarrow>
                  Inr (map (\<lambda>(r, p, a, c).
                             \<lparr>source = source r,
                              contextual_identifier = contextual_identifier r,
                              common_name = common_name r,
                              part_of_identifiers = p,
                              x = x r, y = y r,
                              wikidata_id = wikidata_id r,
                              admin_intersects = a,
                              country_intersects = c\<rparr>)
                        (zip df_ecoregions (zip parsed (zip admin country))))))"

section \<open>Boundary collections: Dataset Combiner and Identifier Resolver\<close>









section \<open>Concrete inputs\<close>

text \<open>
  A level-3 row of the North American dataset (Cross Timbers, 9.4.5) and the rows the
  statements below are evaluated on.
\<close>

definition cross_timbers :: "na_er3_row geo_row" where
  "cross_timbers =
     GeoRow \<lparr>source = ''NA_CEC_Eco_Level3'',
             NA_L1CODE = ''9'', NA_L1NAME = ''GREAT PLAINS'',
             NA_L2CODE = ''9.4'', NA_L2NAME = ''SOUTH CENTRAL SEMIARID PRAIRIES'',
             NA_L3CODE = ''9.4.5'', NA_L3NAME = ''Cross Timbers''\<rparr>
            \<lparr>geom_type = ''Polygon'', wkt = ''POLYGON ((0 0, 1 0, 0 1, 0 0))''\<rparr>"




definition arctic_cordillera :: "region geo_row" where
  "arctic_cordillera =
     GeoRow \<lparr>source = ''NA_CEC_Eco_Level1'', contextual_identifier = ''NA_L1CODE:1'',
             common_name = ''ARCTIC CORDILLERA'', part_of_identifiers = None\<rparr>
            \<lparr>geom_type = ''MultiPolygon'', wkt = ''MULTIPOLYGON (((0 0, 1 0, 0 1, 0 0)))''\<rparr>"

definition southern_rockies :: "region geo_row" where
  "southern_rockies =
     GeoRow \<lparr>source = ''US_Eco_Level3'', contextual_identifier = ''US_L3CODE:21'',
             common_name = ''Southern Rockies'',
             part_of_identifiers = Some ''NA_L1CODE:6;NA_L2CODE:6.2;NA_L3CODE:6.2.14''\<rparr>
            \<lparr>geom_type = ''Polygon'', wkt = ''POLYGON ((2 2, 3 2, 2 3, 2 2))''\<rparr>"

text \<open>A record with a point geometry, as no dissolve of polygons produces.\<close>

definition survey_point :: "region geo_row" where
  "survey_point =
     GeoRow \<lparr>source = ''NA_CEC_Eco_Level1'', contextual_identifier = ''NA_L1CODE:0'',
             common_name = ''WATER'', part_of_identifiers = None\<rparr>
            \<lparr>geom_type = ''Point'', wkt = ''POINT (0 0)''\<rparr>"

text \<open>
  Stand-ins for the centroid and for the two versions of \<^verbatim>\<open>lookup_wd\<close>: a reference
  set that knows the level-3 ecoregions Southern Rockies (by its code) and Cross Timbers
  (by its name, which the North American and the US level 3 share).
\<close>

definition example_centroid :: "shape \<Rightarrow> int \<times> int" where
  "example_centroid g = (0, 0)"

definition example_lookup_wd :: "string \<Rightarrow> string option" where
  "example_lookup_wd k = (if k = ''US_L3CODE:21'' then Some ''Q7570202'' else None)"

definition example_lookup_by_name :: "string \<Rightarrow> string \<Rightarrow> string option \<Rightarrow> string option" where
  "example_lookup_by_name ref_set name code =
     (if ref_set = ''Ecoregions'' \<and> name = ''Cross Timbers'' then Some ''Q5188749'' else None)"

text \<open>
  Geometries as lists of grid cells, which intersect when they share a cell, and tables
  of the store over them: the boundary tables with the selected columns
  \<^verbatim>\<open>name\<close> and \<^verbatim>\<open>wikidata_id\<close>, the ecoregion tables with
  \<^verbatim>\<open>contextual_identifier\<close>.
\<close>

definition example_intersects :: "nat list \<Rightarrow> nat list \<Rightarrow> bool" where
  "example_intersects g h = (set g \<inter> set h \<noteq> {})"

definition example_boundaries_p :: "((string \<times> string option) \<times> nat list) list" where
  "example_boundaries_p = [((''Colorado'', Some ''Q1261''), [1, 2, 3])]"

definition example_boundaries_m :: "((string \<times> string option) \<times> nat list) list" where
  "example_boundaries_m = [((''Hawaii'', Some ''Q782''), [20, 21])]"

definition example_ecoregions_p :: "(string \<times> nat list) list" where
  "example_ecoregions_p = [(''NA_L1CODE:1'', [2])]"

definition example_ecoregions_m :: "(string \<times> nat list) list" where
  "example_ecoregions_m = [(''NA_L1CODE:2'', [7, 8])]"

text \<open>An intersections table of the function suite and a stored ecoregion row.\<close>

definition example_intersections :: frame where
  "example_intersections =
     \<lparr>columns = [''boundary_name'', ''admin_id'', ''country_id'', ''contextual_identifier''],
      rows = [map_of [(''boundary_name'', Str ''Colorado''), (''admin_id'', Str ''Q1261''),
                      (''country_id'', Str ''Q30''),
                      (''contextual_identifier'', Str ''US_L3CODE:21'')],
              map_of [(''boundary_name'', Str ''New Mexico''), (''admin_id'', Str ''Q1522''),
                      (''country_id'', Str ''Q30''),
                      (''contextual_identifier'', Str ''US_L3CODE:21'')],
              map_of [(''boundary_name'', Str ''Nunavut''), (''admin_id'', Str ''Q2023''),
                      (''country_id'', Str ''Q16''),
                      (''contextual_identifier'', Str ''NA_L1CODE:1'')]]\<rparr>"

definition stored_southern_rockies :: "(string option, int) ecoregion_wd pg_row" where
  "stored_southern_rockies =
     PgRow \<lparr>source = ''US_Eco_Level3'', contextual_identifier = ''US_L3CODE:21'',
            common_name = ''Southern Rockies'',
            part_of_identifiers = Some ''NA_L1CODE:6;NA_L2CODE:6.2;NA_L3CODE:6.2.14'',
            x = 0, y = 0, wikidata_id = Some ''Q7570202''\<rparr>
           (WKTElement ''POLYGON ((2 2, 3 2, 2 3, 2 2))'' 4326)"

text \<open>
  An intersections table as the first version of the notebook reads it, with the column
  \<^verbatim>\<open>wikidata_id\<close>; two of the boundaries have no resolved identifier.
\<close>

definition original_intersections :: frame where
  "original_intersections =
     \<lparr>columns = [''boundary_name'', ''wikidata_id'', ''contextual_identifier''],
      rows = [map_of [(''boundary_name'', Str ''Colorado''), (''wikidata_id'', Str ''Q1261''),
                      (''contextual_identifier'', Str ''US_L3CODE:21'')],
              map_of [(''boundary_name'', Str ''New Mexico''), (''wikidata_id'', Str ''Q1522''),
                      (''contextual_identifier'', Str ''US_L3CODE:21'')],
              map_of [(''boundary_name'', Str ''Sonora''), (''wikidata_id'', PyNone),
                      (''contextual_identifier'', Str ''NA_L1CODE:10'')],
              map_of [(''boundary_name'', Str ''Chihuahua''), (''wikidata_id'', PyNone),
                      (''contextual_identifier'', Str ''NA_L1CODE:10'')]]\<rparr>"





section \<open>Properties of the string primitives\<close>

lemma split_sep_no_sep: "sep \<notin> set s \<Longrightarrow> split_sep sep s = [s]"
  by (induction s) auto

lemma split_sep_append:
  "sep \<notin> set a \<Longrightarrow> split_sep sep (a @ sep # rest) = a # split_sep sep rest"
  by (induction a) auto

lemma split_join:
  "vs \<noteq> [] \<Longrightarrow> \<forall>v\<in>set vs. sep \<notin> set v \<Longrightarrow> split_sep sep (join_sep sep vs) = vs"
proof (induction sep vs rule: join_sep.induct)
  case (1 sep)
  then show ?case by simp
next
  case (2 sep v)
  then show ?case by (simp add: split_sep_no_sep)
next
  case (3 sep v w ws)
  then show ?case by (simp add: split_sep_append)
qed

text \<open>
  What \<^verbatim>\<open>clean_synth_df\<close> writes into \<^verbatim>\<open>part_of_identifiers\<close> is the serialized
  form of the ancestor identifiers of the level; level 1 has none.
\<close>

lemma clean_na_er1_part_of:
  "part_of_identifiers (attrs (clean_na_er1 row)) = serialize_part_of []"
  by (simp add: clean_na_er1_def serialize_part_of_def)

lemma clean_na_er2_part_of:
  "part_of_identifiers (attrs (clean_na_er2 row)) =
     serialize_part_of [''NA_L1CODE:'' @ NA_L1CODE (attrs row)]"
  by (simp add: clean_na_er2_def serialize_part_of_def)

lemma clean_na_er3_part_of:
  "part_of_identifiers (attrs (clean_na_er3 row)) =
     serialize_part_of [''NA_L1CODE:'' @ NA_L1CODE (attrs row),
                        ''NA_L2CODE:'' @ NA_L2CODE (attrs row)]"
  by (simp add: clean_na_er3_def serialize_part_of_def)

lemma clean_conus_er3_part_of:
  "part_of_identifiers (attrs (clean_conus_er3 row)) =
     serialize_part_of [''NA_L1CODE:'' @ NA_L1CODE (attrs row),
                        ''NA_L2CODE:'' @ NA_L2CODE (attrs row),
                        ''NA_L3CODE:'' @ NA_L3CODE (attrs row)]"
  by (simp add: clean_conus_er3_def serialize_part_of_def)

lemma clean_conus_er4_part_of:
  "part_of_identifiers (attrs (clean_conus_er4 row)) =
     serialize_part_of [''NA_L1CODE:'' @ NA_L1CODE (attrs row),
                        ''NA_L2CODE:'' @ NA_L2CODE (attrs row),
                        ''NA_L3CODE:'' @ NA_L3CODE (attrs row),
                        ''US_L3CODE:'' @ US_L3CODE (attrs row)]"
  by (simp add: clean_conus_er4_def serialize_part_of_def)

text \<open>
  C5. Serializing and parsing \<^verbatim>\<open>part_of_identifiers\<close> round-trip: for every ordered
  sequence of ancestor identifiers none of which contains a semicolon, the serialized
  form, split again by the Result Assembler's lambda, is the same ordered sequence; a
  record without ancestors is serialized as None, and None is parsed to None.
\<close>

theorem part_of_identifiers_roundtrip:
  assumes "\<forall>v\<in>set vs. CHR '';'' \<notin> set v"
  shows "parse_part_of (serialize_part_of vs) = (if vs = [] then None else Some vs)
     \<and> parse_part_of None = None"
  using assms by (simp add: parse_part_of_def serialize_part_of_def split_join)

theorem part_of_identifiers_roundtrip_witness:
  "serialize_part_of [''A'', ''B'', ''C''] = Some ''A;B;C''
   \<and> parse_part_of (Some ''A;B;C'') = Some [''A'', ''B'', ''C'']
   \<and> parse_part_of (serialize_part_of []) = None"
proof -
  have abc: "\<forall>v\<in>set [''A'', ''B'', ''C'']. CHR '';'' \<notin> set v" by simp
  have none: "\<forall>v\<in>set ([] :: string list). CHR '';'' \<notin> set v" by simp
  show ?thesis
    using part_of_identifiers_roundtrip [OF abc] part_of_identifiers_roundtrip [OF none]
    by (simp add: serialize_part_of_def)
qed

section \<open>Properties of the Source Normalizer\<close>

text \<open>
  In \<^verbatim>\<open>clean_synth_df\<close> every level gets its own tag in front of its own code.
\<close>

lemma clean_synth_df_contextual_identifier:
  "contextual_identifier (attrs (clean_na_er1 r1)) = ''NA_L1CODE'' @ '':'' @ NA_L1CODE (attrs r1)"
  "contextual_identifier (attrs (clean_na_er2 r2)) = ''NA_L2CODE'' @ '':'' @ NA_L2CODE (attrs r2)"
  "contextual_identifier (attrs (clean_na_er3 r3)) = ''NA_L3CODE'' @ '':'' @ NA_L3CODE (attrs r3)"
  "contextual_identifier (attrs (clean_conus_er3 r4)) = ''US_L3CODE'' @ '':'' @ US_L3CODE (attrs r4)"
  "contextual_identifier (attrs (clean_conus_er4 r5)) = ''US_L4CODE'' @ '':'' @ US_L4CODE (attrs r5)"
  by (simp_all add: clean_na_er1_def clean_na_er2_def clean_na_er3_def clean_conus_er3_def
        clean_conus_er4_def)

text \<open>
  C3. The contextual identifier of a record is the tag of its own level followed by its
  own code. The level-3 step of the first version of the notebook does not do this: the
  row 9.4.5 gets the level-1 tag there, while \<^verbatim>\<open>clean_synth_df\<close> gives it the
  level-3 tag.
\<close>

theorem original_na_er3_contextual_identifier:
  "contextual_identifier (attrs (original_clean_na_er3 cross_timbers)) = ''NA_L1CODE:9.4.5''
   \<and> contextual_identifier (attrs (original_clean_na_er3 cross_timbers))
       \<noteq> ''NA_L3CODE:'' @ NA_L3CODE (attrs cross_timbers)
   \<and> contextual_identifier (attrs (clean_na_er3 cross_timbers)) = ''NA_L3CODE:9.4.5''"
  by (simp add: original_clean_na_er3_def clean_na_er3_def cross_timbers_def)

section \<open>Properties of the Hierarchical Aggregator\<close>

lemma map_filter_keys:
  "(\<forall>k\<in>set ks. \<exists>r. f k = Some r \<and> g r = k) \<Longrightarrow> map g (List.map_filter f ks) = ks"
  by (induction ks) auto

lemma dissolve_group_key:
  assumes "r \<in> set df"
  shows "\<exists>row. dissolve_group uu (filter (\<lambda>r'. contextual_identifier (attrs r')
                                              = contextual_identifier (attrs r)) df) = Some row
      \<and> contextual_identifier (attrs row) = contextual_identifier (attrs r)"
proof -
  let ?grp = "filter (\<lambda>r'. contextual_identifier (attrs r') = contextual_identifier (attrs r)) df"
  from assms have "r \<in> set ?grp" by simp
  then obtain a as where eq: "?grp = a # as"
    by (cases ?grp) auto
  then have "a \<in> set ?grp" by simp
  then have "contextual_identifier (attrs a) = contextual_identifier (attrs r)" by simp
  with eq show ?thesis by simp
qed

lemma set_group_keys: "set (group_keys df) = (\<lambda>r. contextual_identifier (attrs r)) ` set df"
  by (simp add: group_keys_def)

lemma combine_geometries_keys:
  "map (\<lambda>r. contextual_identifier (attrs r)) (combine_geometries uu df) = group_keys df"
  unfolding combine_geometries_def
proof (rule map_filter_keys, rule ballI)
  fix k assume "k \<in> set (group_keys df)"
  then obtain r where "r \<in> set df" "k = contextual_identifier (attrs r)"
    by (auto simp: set_group_keys)
  then show "\<exists>r. dissolve_group uu (filter (\<lambda>r. contextual_identifier (attrs r) = k) df) = Some r
      \<and> contextual_identifier (attrs r) = k"
    using dissolve_group_key [of r df uu] by simp
qed

text \<open>
  C6. After the dissolve every contextual identifier of the input occurs in exactly one
  output row: the keys of the output are pairwise different, they are the keys of the
  input, and the number of rows is the number of distinct keys of the input.
\<close>

theorem dissolve_one_row_per_key:
  "distinct (map (\<lambda>r. contextual_identifier (attrs r)) (combine_geometries uu df))
   \<and> length (combine_geometries uu df) = card ((\<lambda>r. contextual_identifier (attrs r)) ` set df)
   \<and> (\<lambda>r. contextual_identifier (attrs r)) ` set (combine_geometries uu df)
       = (\<lambda>r. contextual_identifier (attrs r)) ` set df"
proof -
  let ?k = "\<lambda>r. contextual_identifier (attrs r)"
  have keys: "map ?k (combine_geometries uu df) = group_keys df"
    by (rule combine_geometries_keys)
  have d: "distinct (group_keys df)" by (simp add: group_keys_def)
  have "length (combine_geometries uu df) = length (group_keys df)"
    using keys by (metis length_map)
  also have "\<dots> = card (?k ` set df)"
    by (simp add: group_keys_def length_remdups_card_conv)
  finally have len: "length (combine_geometries uu df) = card (?k ` set df)" .
  have "set (map ?k (combine_geometries uu df)) = ?k ` set df"
    unfolding keys by (rule set_group_keys)
  then have img: "?k ` set (combine_geometries uu df) = ?k ` set df" by simp
  from keys d len img show ?thesis by simp
qed










section \<open>Properties of the Identifier Resolver\<close>

lemma map_fst_enumerate: "map fst (enumerate n vs) = [n..<n + length vs]"
  by (simp add: enumerate_eq_zip)

lemma map_snd_enumerate: "map snd (enumerate n vs) = vs"
  by (simp add: enumerate_eq_zip)

lemma map_fst_relabel: "map fst (map (\<lambda>(i, r). (i, F i r)) zs) = map fst zs"
  by (induction zs) auto

lemma map_relabel_attr:
  "(\<And>i r. g (F i r) = h r) \<Longrightarrow>
   map (\<lambda>(i, r). g r) (map (\<lambda>(i, r). (i, F i r)) zs) = map h (map snd zs)"
  by (induction zs) auto

lemma map_of_looked_up_None:
  "i \<notin> fst ` set sel \<Longrightarrow> map_of (map (\<lambda>(i, r). (i, f r)) sel) i = None"
  by (induction sel) auto

text \<open>
  C4, for the function suite. Every call \<^verbatim>\<open>prepare_wikidata_info\<close> makes of
  \<^verbatim>\<open>lookup_wd\<close> for a row is for a row whose source is \<^verbatim>\<open>US_Eco_Level3\<close> or
  \<^verbatim>\<open>US_Eco_Level4\<close>, with that row's contextual identifier; a row of any other source
  has no call and the identifier None, also in a collection without any row of the two US
  levels. Every input row has its output row, in order and with its source.
\<close>

theorem lookup_only_us_levels:
  assumes run: "prepare_wikidata_info centroid title lookup_wd df = (out, calls)"
  shows "(\<forall>i k. RowCall i k \<in> set calls \<longrightarrow>
            (\<exists>r. (i, r) \<in> set (enumerate 0 df)
              \<and> (source (attrs r) = ''US_Eco_Level3'' \<or> source (attrs r) = ''US_Eco_Level4'')
              \<and> k = contextual_identifier (attrs r)))
     \<and> (\<forall>(i, r)\<in>set out.
            source (attrs r) \<noteq> ''US_Eco_Level3'' \<and> source (attrs r) \<noteq> ''US_Eco_Level4''
            \<longrightarrow> (\<forall>k. RowCall i k \<notin> set calls) \<and> wikidata_id (attrs r) = None)
     \<and> map fst out = [0..<length df]
     \<and> map (\<lambda>(i, r). source (attrs r)) out = map (\<lambda>r. source (attrs r)) df"
proof -
  let ?us = "\<lambda>r. source (attrs r) \<in> set [''US_Eco_Level3'', ''US_Eco_Level4'']"
  let ?indexed = "enumerate 0 df"
  let ?selected = "filter (\<lambda>(i, r). ?us r) ?indexed"
  let ?looked_up = "map (\<lambda>(i, r). (i, lookup_wd (contextual_identifier (attrs r)))) ?selected"
  let ?row = "\<lambda>(i, r).
                (i, GeoRow \<lparr>source = source (attrs r),
                            contextual_identifier = contextual_identifier (attrs r),
                            common_name = title (common_name (attrs r)),
                            part_of_identifiers = part_of_identifiers (attrs r),
                            x = fst (centroid (geometry r)),
                            y = snd (centroid (geometry r)),
                            wikidata_id = (case map_of ?looked_up i of
                                             None \<Rightarrow> None
                                           | Some v \<Rightarrow> v)\<rparr>
                           (geometry r))"
  have out: "out = map ?row ?indexed"
    and calls: "calls = (if ?selected = [] then [ProbeCall]
                         else map (\<lambda>(i, r). RowCall i (contextual_identifier (attrs r))) ?selected)"
    using run by (auto simp: prepare_wikidata_info_def Let_def)
  have dist: "distinct (map fst ?indexed)"
    by (simp add: map_fst_enumerate)
  have row_call: "\<exists>r. (i, r) \<in> set ?selected \<and> k = contextual_identifier (attrs r)"
    if "RowCall i k \<in> set calls" for i k
  proof (cases "?selected = []")
    case True
    with that show ?thesis by (simp add: calls)
  next
    case False
    with that have
      "RowCall i k \<in> (\<lambda>(i, r). RowCall i (contextual_identifier (attrs r))) ` set ?selected"
      by (simp only: calls if_False set_map)
    then obtain p where p: "p \<in> set ?selected"
      and eq: "RowCall i k = (case p of (i, r) \<Rightarrow> RowCall i (contextual_identifier (attrs r)))"
      by (rule imageE)
    obtain j r where jr: "p = (j, r)" by (cases p)
    from eq jr have "j = i" "k = contextual_identifier (attrs r)" by simp_all
    with p jr show ?thesis by blast
  qed
  have c1: "\<forall>i k. RowCall i k \<in> set calls \<longrightarrow>
            (\<exists>r. (i, r) \<in> set ?indexed
              \<and> (source (attrs r) = ''US_Eco_Level3'' \<or> source (attrs r) = ''US_Eco_Level4'')
              \<and> k = contextual_identifier (attrs r))"
  proof (intro allI impI)
    fix i k assume "RowCall i k \<in> set calls"
    then obtain r where r: "(i, r) \<in> set ?selected" "k = contextual_identifier (attrs r)"
      using row_call by blast
    from r(1) have "(i, r) \<in> set ?indexed"
      and "source (attrs r) = ''US_Eco_Level3'' \<or> source (attrs r) = ''US_Eco_Level4''"
      by simp_all
    with r(2) show "\<exists>r. (i, r) \<in> set ?indexed
              \<and> (source (attrs r) = ''US_Eco_Level3'' \<or> source (attrs r) = ''US_Eco_Level4'')
              \<and> k = contextual_identifier (attrs r)"
      by blast
  qed
  have c2: "\<forall>(i, r)\<in>set out.
            source (attrs r) \<noteq> ''US_Eco_Level3'' \<and> source (attrs r) \<noteq> ''US_Eco_Level4''
            \<longrightarrow> (\<forall>k. RowCall i k \<notin> set calls) \<and> wikidata_id (attrs r) = None"
  proof (clarify)
    fix i r
    assume mem: "(i, r) \<in> set out"
      and n3: "source (attrs r) \<noteq> ''US_Eco_Level3''"
      and n4: "source (attrs r) \<noteq> ''US_Eco_Level4''"
    from mem obtain r0 where r0: "(i, r0) \<in> set ?indexed" and r: "(i, r) = ?row (i, r0)"
      unfolding out by auto
    from r have src: "source (attrs r) = source (attrs r0)" by simp
    have notsel: "i \<notin> fst ` set ?selected"
    proof
      assume "i \<in> fst ` set ?selected"
      then obtain r1 where r1: "(i, r1) \<in> set ?indexed" "?us r1" by auto
      with dist r0 have "r1 = r0" by (metis eq_key_imp_eq_value)
      with r1 src n3 n4 show False by simp
    qed
    have a: "\<forall>k. RowCall i k \<notin> set calls"
    proof (intro allI notI)
      fix k assume "RowCall i k \<in> set calls"
      then obtain r1 where "(i, r1) \<in> set ?selected" using row_call by blast
      then have "i \<in> fst ` set ?selected" by (rule rev_image_eqI) simp
      with notsel show False ..
    qed
    have "map_of ?looked_up i = None"
      using notsel by (rule map_of_looked_up_None)
    with r have b: "wikidata_id (attrs r) = None" by simp
    from a b show "(\<forall>k. RowCall i k \<notin> set calls) \<and> wikidata_id (attrs r) = None" ..
  qed
  have c3: "map fst out = [0..<length df]"
    unfolding out map_fst_relabel by (simp add: map_fst_enumerate)
  have "map (\<lambda>(i, r). source (attrs r)) out = map (\<lambda>r. source (attrs r)) (map snd ?indexed)"
    unfolding out by (rule map_relabel_attr) simp
  then have c4: "map (\<lambda>(i, r). source (attrs r)) out = map (\<lambda>r. source (attrs r)) df"
    by (simp only: map_snd_enumerate)
  from c1 c2 c3 c4 show ?thesis by (intro conjI)
qed

lemma prepare_example:
  "prepare_wikidata_info example_centroid str_title example_lookup_wd
     [arctic_cordillera, southern_rockies] =
   ([(0, GeoRow \<lparr>source = ''NA_CEC_Eco_Level1'', contextual_identifier = ''NA_L1CODE:1'',
                  common_name = ''Arctic Cordillera'', part_of_identifiers = None,
                  x = 0, y = 0, wikidata_id = None\<rparr>
                 (geometry arctic_cordillera)),
     (1, GeoRow \<lparr>source = ''US_Eco_Level3'', contextual_identifier = ''US_L3CODE:21'',
                  common_name = ''Southern Rockies'',
                  part_of_identifiers = Some ''NA_L1CODE:6;NA_L2CODE:6.2;NA_L3CODE:6.2.14'',
                  x = 0, y = 0, wikidata_id = Some ''Q7570202''\<rparr>
                 (geometry southern_rockies))],
    [RowCall 1 ''US_L3CODE:21''])"
  "prepare_wikidata_info example_centroid str_title example_lookup_wd [arctic_cordillera] =
   ([(0, GeoRow \<lparr>source = ''NA_CEC_Eco_Level1'', contextual_identifier = ''NA_L1CODE:1'',
                  common_name = ''Arctic Cordillera'', part_of_identifiers = None,
                  x = 0, y = 0, wikidata_id = None\<rparr>
                 (geometry arctic_cordillera))],
    [ProbeCall])"
  by code_simp+

theorem lookup_only_us_levels_witness:
  "prepare_wikidata_info example_centroid str_title example_lookup_wd
     [arctic_cordillera, southern_rockies] =
   ([(0, GeoRow \<lparr>source = ''NA_CEC_Eco_Level1'', contextual_identifier = ''NA_L1CODE:1'',
                  common_name = ''Arctic Cordillera'', part_of_identifiers = None,
                  x = 0, y = 0, wikidata_id = None\<rparr>
                 (geometry arctic_cordillera)),
     (1, GeoRow \<lparr>source = ''US_Eco_Level3'', contextual_identifier = ''US_L3CODE:21'',
                  common_name = ''Southern Rockies'',
                  part_of_identifiers = Some ''NA_L1CODE:6;NA_L2CODE:6.2;NA_L3CODE:6.2.14'',
                  x = 0, y = 0, wikidata_id = Some ''Q7570202''\<rparr>
                 (geometry southern_rockies))],
    [RowCall 1 ''US_L3CODE:21''])
   \<and> prepare_wikidata_info example_centroid str_title example_lookup_wd [arctic_cordillera] =
   ([(0, GeoRow \<lparr>source = ''NA_CEC_Eco_Level1'', contextual_identifier = ''NA_L1CODE:1'',
                  common_name = ''Arctic Cordillera'', part_of_identifiers = None,
                  x = 0, y = 0, wikidata_id = None\<rparr>
                 (geometry arctic_cordillera))],
    [ProbeCall])"
  using lookup_only_us_levels [OF prepare_example(1)] lookup_only_us_levels [OF prepare_example(2)]
  by (simp only: prepare_example simp_thms)

text \<open>
  The first version of the notebook looks every record up: its level-3 record Cross Timbers
  of the North American dataset is looked up by name and gets an identifier.
\<close>

theorem original_lookup_counterexample:
  "original_wikidata_info example_centroid str_title example_lookup_by_name
          [original_clean_na_er3 cross_timbers]
     = ([(''NA_L1CODE:9.4.5'',
          GeoRow \<lparr>source = ''NA_CEC_Eco_Level3'', contextual_identifier = ''NA_L1CODE:9.4.5'',
                  common_name = ''Cross Timbers'',
                  part_of_identifiers = Some ''NA_L1CODE:9;NA_L2CODE:9.4'',
                  x = 0, y = 0, wikidata_id = Some ''Q5188749''\<rparr>
                 (geometry cross_timbers))],
        [RowCall ''NA_L1CODE:9.4.5'' ''Cross Timbers''])"
  by code_simp

section \<open>Properties of the Geometry Partitioner\<close>

lemma drop_labels_index_where:
  assumes "distinct (map fst df)"
  shows "drop_labels (index_where p df) df = filter (\<lambda>(i, r). \<not> p r) df"
  unfolding drop_labels_def
proof (rule filter_cong [OF refl])
  fix row assume row: "row \<in> set df"
  obtain i r where ir: "row = (i, r)" by (cases row)
  have "i \<in> set (index_where p df) \<longleftrightarrow> p r"
  proof
    assume "i \<in> set (index_where p df)"
    then obtain r' where r': "(i, r') \<in> set df" "p r'"
      by (auto simp: index_where_def)
    with assms row ir have "r' = r" by (metis eq_key_imp_eq_value)
    with r' show "p r" by simp
  next
    assume "p r"
    with row ir show "i \<in> set (index_where p df)"
      by (force simp: index_where_def)
  qed
  then show "(case row of (i, r) \<Rightarrow> i \<notin> set (index_where p df)) = (case row of (i, r) \<Rightarrow> \<not> p r)"
    by (simp add: ir)
qed

lemma count_list_distinct:
  "distinct vs \<Longrightarrow> count_list vs a = (if a \<in> set vs then 1 else 0)"
  by (induction vs) auto

lemma label_in_filter:
  assumes "distinct (map fst df)" and "(i, r) \<in> set df"
  shows "(i \<in> set (map fst (filter (\<lambda>(i, r). P r) df))) = P r"
proof
  assume "i \<in> set (map fst (filter (\<lambda>(i, r). P r) df))"
  then obtain r' where r': "(i, r') \<in> set df" "P r'" by auto
  with assms have "r' = r" by (metis eq_key_imp_eq_value)
  with r' show "P r" by simp
next
  assume "P r"
  with assms(2) have "(i, r) \<in> set (filter (\<lambda>(i, r). P r) df)" by simp
  then show "i \<in> set (map fst (filter (\<lambda>(i, r). P r) df))" by force
qed

lemma prep_source_for_pg_distinct:
  assumes "distinct (map fst df)"
  shows "prep_source_for_pg df =
     (map (\<lambda>(i, r). (i, to_pg r)) (filter (\<lambda>(i, r). geom_type (geometry r) \<noteq> ''Polygon'') df),
      map (\<lambda>(i, r). (i, to_pg r)) (filter (\<lambda>(i, r). geom_type (geometry r) \<noteq> ''MultiPolygon'') df))"
  by (simp add: prep_source_for_pg_def drop_labels_index_where [OF assms])

lemma map_fst_to_pg: "map fst (map (\<lambda>(i, r). (i, to_pg r)) df) = map fst df"
  by (induction df) auto

text \<open>The cell of the boundary notebook computes what \<^verbatim>\<open>prep_source_for_pg\<close> computes.\<close>

lemma split_boundaries_eq: "split_boundaries df = prep_source_for_pg df"
  by (simp add: split_boundaries_def prep_source_for_pg_def)

text \<open>
  C1. For a collection with pairwise different row labels whose geometries are
  all polygons or multi-polygons, every record appears in exactly one of the two outputs
  of the Geometry Partitioner: a multi-polygon in the first, a polygon in the second.
\<close>

theorem partition_exactly_one:
  assumes labels: "distinct (map fst df)"
    and types: "\<forall>(i, r)\<in>set df. geom_type (geometry r) = ''Polygon''
                  \<or> geom_type (geometry r) = ''MultiPolygon''"
    and row: "(i, r) \<in> set df"
  shows "count_list (map fst (fst (prep_source_for_pg df))) i
           + count_list (map fst (snd (prep_source_for_pg df))) i = 1
     \<and> ((i, to_pg r) \<in> set (fst (prep_source_for_pg df)))
         = (geom_type (geometry r) = ''MultiPolygon'')
     \<and> ((i, to_pg r) \<in> set (snd (prep_source_for_pg df)))
         = (geom_type (geometry r) = ''Polygon'')"
proof -
  let ?multi = "filter (\<lambda>(i, r). geom_type (geometry r) \<noteq> ''Polygon'') df"
  let ?poly = "filter (\<lambda>(i, r). geom_type (geometry r) \<noteq> ''MultiPolygon'') df"
  have fst_eq: "map fst (fst (prep_source_for_pg df)) = map fst ?multi"
    and snd_eq: "map fst (snd (prep_source_for_pg df)) = map fst ?poly"
    by (simp_all add: prep_source_for_pg_distinct [OF labels] map_fst_to_pg)
  have dm: "distinct (map fst ?multi)" and dp: "distinct (map fst ?poly)"
    using labels by (simp_all add: distinct_map_filter)
  have ty: "geom_type (geometry r) = ''Polygon'' \<or> geom_type (geometry r) = ''MultiPolygon''"
    using types row by auto
  have in_multi: "i \<in> set (map fst ?multi) \<longleftrightarrow> geom_type (geometry r) \<noteq> ''Polygon''"
    using labels row by (rule label_in_filter)
  have in_poly: "i \<in> set (map fst ?poly) \<longleftrightarrow> geom_type (geometry r) \<noteq> ''MultiPolygon''"
    using labels row by (rule label_in_filter)
  have cm: "count_list (map fst ?multi) i = (if geom_type (geometry r) \<noteq> ''Polygon'' then 1 else 0)"
    unfolding count_list_distinct [OF dm] in_multi ..
  have cp: "count_list (map fst ?poly) i = (if geom_type (geometry r) \<noteq> ''MultiPolygon'' then 1 else 0)"
    unfolding count_list_distinct [OF dp] in_poly ..
  have count: "count_list (map fst ?multi) i + count_list (map fst ?poly) i = 1"
    unfolding cm cp using ty by auto
  have mem_multi: "((i, to_pg r) \<in> set (fst (prep_source_for_pg df)))
      = (geom_type (geometry r) = ''MultiPolygon'')"
  proof
    assume "(i, to_pg r) \<in> set (fst (prep_source_for_pg df))"
    then have "i \<in> set (map fst (fst (prep_source_for_pg df)))" by force
    with fst_eq in_multi ty show "geom_type (geometry r) = ''MultiPolygon''" by auto
  next
    assume "geom_type (geometry r) = ''MultiPolygon''"
    with row have "(i, r) \<in> set ?multi" by simp
    then show "(i, to_pg r) \<in> set (fst (prep_source_for_pg df))"
      by (force simp: prep_source_for_pg_distinct [OF labels])
  qed
  have mem_poly: "((i, to_pg r) \<in> set (snd (prep_source_for_pg df)))
      = (geom_type (geometry r) = ''Polygon'')"
  proof
    assume "(i, to_pg r) \<in> set (snd (prep_source_for_pg df))"
    then have "i \<in> set (map fst (snd (prep_source_for_pg df)))" by force
    with snd_eq in_poly ty show "geom_type (geometry r) = ''Polygon''" by auto
  next
    assume "geom_type (geometry r) = ''Polygon''"
    with row have "(i, r) \<in> set ?poly" by simp
    then show "(i, to_pg r) \<in> set (snd (prep_source_for_pg df))"
      by (force simp: prep_source_for_pg_distinct [OF labels])
  qed
  from count mem_multi mem_poly show ?thesis by (simp add: fst_eq snd_eq)
qed

lemma example_geom_types:
  "geom_type (geometry survey_point) = ''Point''"
  "geom_type (geometry arctic_cordillera) = ''MultiPolygon''"
  "geom_type (geometry southern_rockies) = ''Polygon''"
  by (simp_all add: survey_point_def arctic_cordillera_def southern_rockies_def)

lemma partition_example:
  "prep_source_for_pg [(0::nat, arctic_cordillera), (1, southern_rockies)]
       = ([(0, to_pg arctic_cordillera)], [(1, to_pg southern_rockies)])"
  by code_simp

theorem partition_exactly_one_witness:
  "count_list (map fst (fst (prep_source_for_pg [(0::nat, arctic_cordillera), (1, southern_rockies)]))) 1
     + count_list (map fst (snd (prep_source_for_pg [(0::nat, arctic_cordillera), (1, southern_rockies)]))) 1 = 1
   \<and> prep_source_for_pg [(0::nat, arctic_cordillera), (1, southern_rockies)]
       = ([(0, to_pg arctic_cordillera)], [(1, to_pg southern_rockies)])"
proof -
  let ?df = "[(0::nat, arctic_cordillera), (1, southern_rockies)]"
  have labels: "distinct (map fst ?df)" by simp
  have types: "\<forall>(i, r)\<in>set ?df. geom_type (geometry r) = ''Polygon''
                  \<or> geom_type (geometry r) = ''MultiPolygon''"
    by (simp add: example_geom_types)
  have row: "(1, southern_rockies) \<in> set ?df" by simp
  have once: "count_list (map fst (fst (prep_source_for_pg ?df))) 1
      + count_list (map fst (snd (prep_source_for_pg ?df))) 1 = 1"
    using partition_exactly_one [OF labels types row] by (rule conjunct1)
  from once partition_example show ?thesis by (rule conjI)
qed

text \<open>
  A record with a point geometry is dropped from neither copy and appears in both outputs;
  two records that share a row label are dropped together from both copies and appear in
  neither.
\<close>

theorem partition_counterexample:
  "count_list (map fst (fst (prep_source_for_pg [(0::nat, survey_point)]))) 0
     + count_list (map fst (snd (prep_source_for_pg [(0::nat, survey_point)]))) 0 = 2
   \<and> count_list (map fst (fst (prep_source_for_pg [(0::nat, arctic_cordillera), (0, southern_rockies)]))) 0
     + count_list (map fst (snd (prep_source_for_pg [(0::nat, arctic_cordillera), (0, southern_rockies)]))) 0 = 0"
  by code_simp

section \<open>Properties of the Intersection Engine\<close>

lemma set_st_join:
  "set (st_join st bs es) = {(b, e). \<exists>bg eg. (b, bg) \<in> set bs \<and> (e, eg) \<in> set es \<and> st bg eg}"
proof -
  have "(b, e) \<in> set (st_join st bs es)
      \<longleftrightarrow> (\<exists>bg eg. (b, bg) \<in> set bs \<and> (e, eg) \<in> set es \<and> st bg eg)" for b e
  proof
    assume "(b, e) \<in> set (st_join st bs es)"
    then show "\<exists>bg eg. (b, bg) \<in> set bs \<and> (e, eg) \<in> set es \<and> st bg eg"
      by (auto simp: st_join_def)
  next
    assume "\<exists>bg eg. (b, bg) \<in> set bs \<and> (e, eg) \<in> set es \<and> st bg eg"
    then obtain bg eg where h: "(b, bg) \<in> set bs" "(e, eg) \<in> set es" "st bg eg" by blast
    then have "(b, e) \<in> set (map (\<lambda>(e, eg). (b, e)) (filter (\<lambda>(e, eg). st bg eg) es))"
      by force
    with h(1) show "(b, e) \<in> set (st_join st bs es)"
      unfolding st_join_def by (auto intro!: bexI [of _ "(b, bg)"])
  qed
  then show ?thesis by auto
qed

lemma set_intersections:
  "set (intersections st bm bp em ep) =
     {(b, e). \<exists>bg eg. (b, bg) \<in> set bm \<union> set bp \<and> (e, eg) \<in> set em \<union> set ep \<and> st bg eg}"
  by (auto simp: intersections_def set_st_join)

text \<open>
  C8. The result of the query is symmetric in its two collections: when the predicate of
  the store is symmetric, running the query with the ecoregion tables in the place of the
  boundary tables and the boundary tables in the place of the ecoregion tables gives the
  same pairs, each with its two identifiers in the other order.
\<close>

theorem intersections_symmetric:
  assumes "\<forall>g h. st_intersects g h = st_intersects h g"
  shows "set (intersections st_intersects ecoregions_m ecoregions_p boundaries_m boundaries_p)
       = (\<lambda>(b, e). (e, b)) ` set (intersections st_intersects boundaries_m boundaries_p
                                                ecoregions_m ecoregions_p)"
proof -
  have sym: "st_intersects g h = st_intersects h g" for g h using assms by blast
  show ?thesis
    unfolding set_intersections
    by (auto simp: image_iff sym) (metis sym)+
qed

theorem intersections_symmetric_witness:
  "intersections example_intersects example_boundaries_m example_boundaries_p
       example_ecoregions_m example_ecoregions_p
     = [((''Colorado'', Some ''Q1261''), ''NA_L1CODE:1'')]
   \<and> intersections example_intersects example_ecoregions_m example_ecoregions_p
       example_boundaries_m example_boundaries_p
     = [(''NA_L1CODE:1'', (''Colorado'', Some ''Q1261''))]
   \<and> set (intersections example_intersects example_ecoregions_m example_ecoregions_p
             example_boundaries_m example_boundaries_p)
     = (\<lambda>(b, e). (e, b)) ` set (intersections example_intersects example_boundaries_m
                                     example_boundaries_p example_ecoregions_m example_ecoregions_p)"
proof -
  have sym: "\<forall>g h. example_intersects g h = example_intersects h g"
    by (auto simp: example_intersects_def)
  show ?thesis
    using intersections_symmetric [OF sym, of example_ecoregions_m example_ecoregions_p
        example_boundaries_m example_boundaries_p]
    by (simp add: intersections_def st_join_def example_intersects_def example_boundaries_m_def
          example_boundaries_p_def example_ecoregions_m_def example_ecoregions_p_def)
qed

section \<open>Properties of the Result Assembler\<close>

lemma apply_series_Inr:
  "\<forall>v\<in>set vs. f v = Inr (g v) \<Longrightarrow> apply_series f vs = Inr (map g vs)"
  by (induction vs) auto

lemma boundary_intersects_list_Inr:
  assumes "''contextual_identifier'' \<in> set (columns df)" and "col \<in> set (columns df)"
  shows "boundary_intersects_list df k col =
     Inr (list_set (map (\<lambda>t. cell_at t col)
            (filter (\<lambda>t. t ''contextual_identifier'' = Some (Str k)) (rows df))))"
  using assms
  by (simp add: boundary_intersects_list_def loc_contextual_identifier_def column_values_def)

lemma zip_map_same: "zip vs (map g vs) = map (\<lambda>v. (v, g v)) vs"
  by (induction vs) auto

lemma zip_map_map: "zip (map f vs) (map g vs) = map (\<lambda>v. (f v, g v)) vs"
  by (induction vs) auto

lemma recombine_ecoregions_Inr:
  assumes ci: "''contextual_identifier'' \<in> set (columns df_intersections)"
    and admin: "''admin_id'' \<in> set (columns df_intersections)"
    and country: "''country_id'' \<in> set (columns df_intersections)"
  shows "recombine_ecoregions df_intersections ecoregions_m ecoregions_p =
     Inr (map (\<lambda>r. \<lparr>source = source r,
                     contextual_identifier = contextual_identifier r,
                     common_name = common_name r,
                     part_of_identifiers = parse_part_of (part_of_identifiers r),
                     x = x r, y = y r,
                     wikidata_id = wikidata_id r,
                     admin_intersects =
                       list_set (map (\<lambda>t. cell_at t ''admin_id'')
                         (filter (\<lambda>t. t ''contextual_identifier'' = Some (Str (contextual_identifier r)))
                           (rows df_intersections))),
                     country_intersects =
                       list_set (map (\<lambda>t. cell_at t ''country_id'')
                         (filter (\<lambda>t. t ''contextual_identifier'' = Some (Str (contextual_identifier r)))
                           (rows df_intersections)))\<rparr>)
            (remdups (map pg_attrs ecoregions_m @ map pg_attrs ecoregions_p)))"
proof -
  let ?df = "remdups (map pg_attrs ecoregions_m @ map pg_attrs ecoregions_p)"
  let ?ids = "\<lambda>col k. list_set (map (\<lambda>t. cell_at t col)
            (filter (\<lambda>t. t ''contextual_identifier'' = Some (Str k)) (rows df_intersections)))"
  have a: "apply_series (\<lambda>k. boundary_intersects_list df_intersections k ''admin_id'')
             (map contextual_identifier ?df) = Inr (map (?ids ''admin_id'') (map contextual_identifier ?df))"
    by (rule apply_series_Inr) (simp add: boundary_intersects_list_Inr [OF ci admin])
  have c: "apply_series (\<lambda>k. boundary_intersects_list df_intersections k ''country_id'')
             (map contextual_identifier ?df) = Inr (map (?ids ''country_id'') (map contextual_identifier ?df))"
    by (rule apply_series_Inr) (simp add: boundary_intersects_list_Inr [OF ci country])
  show ?thesis
    unfolding recombine_ecoregions_def Let_def a c
    by (simp add: zip_map_map zip_map_same comp_def)
qed

text \<open>
  C2. For every stored ecoregion record the Result Assembler emits a record whose
  \<^verbatim>\<open>admin_intersects\<close> holds exactly the \<^verbatim>\<open>admin_id\<close> values of the intersection rows
  with the record's contextual identifier, each once, and whose
  \<^verbatim>\<open>country_intersects\<close> holds the \<^verbatim>\<open>country_id\<close> values of those rows, each once. The
  intersections table has the three columns the code reads.
\<close>

theorem assembler_intersects:
  assumes ci: "''contextual_identifier'' \<in> set (columns df_intersections)"
    and admin: "''admin_id'' \<in> set (columns df_intersections)"
    and country: "''country_id'' \<in> set (columns df_intersections)"
  shows "\<exists>out. recombine_ecoregions df_intersections ecoregions_m ecoregions_p = Inr out
     \<and> contextual_identifier ` set out
         = (\<lambda>r. contextual_identifier (pg_attrs r)) ` (set ecoregions_m \<union> set ecoregions_p)
     \<and> (\<forall>rec\<in>set out.
           set (admin_intersects rec)
             = {cell_at t ''admin_id'' | t. t \<in> set (rows df_intersections)
                   \<and> t ''contextual_identifier'' = Some (Str (contextual_identifier rec))}
         \<and> distinct (admin_intersects rec)
         \<and> set (country_intersects rec)
             = {cell_at t ''country_id'' | t. t \<in> set (rows df_intersections)
                   \<and> t ''contextual_identifier'' = Some (Str (contextual_identifier rec))}
         \<and> distinct (country_intersects rec))"
proof -
  let ?df = "remdups (map pg_attrs ecoregions_m @ map pg_attrs ecoregions_p)"
  let ?ids = "\<lambda>col k. list_set (map (\<lambda>t. cell_at t col)
            (filter (\<lambda>t. t ''contextual_identifier'' = Some (Str k)) (rows df_intersections)))"
  let ?row = "\<lambda>r. \<lparr>source = source r,
                     contextual_identifier = contextual_identifier r,
                     common_name = common_name r,
                     part_of_identifiers = parse_part_of (part_of_identifiers r),
                     x = x r, y = y r,
                     wikidata_id = wikidata_id r,
                     admin_intersects = ?ids ''admin_id'' (contextual_identifier r),
                     country_intersects = ?ids ''country_id'' (contextual_identifier r)\<rparr>"
  have run: "recombine_ecoregions df_intersections ecoregions_m ecoregions_p = Inr (map ?row ?df)"
    by (rule recombine_ecoregions_Inr [OF ci admin country])
  have "contextual_identifier ` set (map ?row ?df) = contextual_identifier ` set ?df"
    by (simp add: image_image)
  also have "\<dots> = (\<lambda>r. contextual_identifier (pg_attrs r)) ` (set ecoregions_m \<union> set ecoregions_p)"
    by (simp add: image_Un image_image)
  finally have keys: "contextual_identifier ` set (map ?row ?df)
      = (\<lambda>r. contextual_identifier (pg_attrs r)) ` (set ecoregions_m \<union> set ecoregions_p)" .
  have ids_set: "set (?ids col k) = {cell_at t col | t. t \<in> set (rows df_intersections)
                   \<and> t ''contextual_identifier'' = Some (Str k)}" for col k
    by (auto simp: list_set_def)
  have ids_distinct: "distinct (?ids col k)" for col k
    by (simp add: list_set_def)
  have each: "\<forall>rec\<in>set (map ?row ?df).
           set (admin_intersects rec)
             = {cell_at t ''admin_id'' | t. t \<in> set (rows df_intersections)
                   \<and> t ''contextual_identifier'' = Some (Str (contextual_identifier rec))}
         \<and> distinct (admin_intersects rec)
         \<and> set (country_intersects rec)
             = {cell_at t ''country_id'' | t. t \<in> set (rows df_intersections)
                   \<and> t ''contextual_identifier'' = Some (Str (contextual_identifier rec))}
         \<and> distinct (country_intersects rec)"
    by (simp add: ids_set ids_distinct)
  from run keys each show ?thesis by blast
qed

lemma assembler_example:
  "recombine_ecoregions example_intersections [] [stored_southern_rockies] =
     Inr [\<lparr>source = ''US_Eco_Level3'', contextual_identifier = ''US_L3CODE:21'',
           common_name = ''Southern Rockies'',
           part_of_identifiers = Some [''NA_L1CODE:6'', ''NA_L2CODE:6.2'', ''NA_L3CODE:6.2.14''],
           x = 0, y = 0, wikidata_id = Some ''Q7570202'',
           admin_intersects = [Str ''Q1261'', Str ''Q1522''],
           country_intersects = [Str ''Q30'']\<rparr>]"
  by code_simp

theorem assembler_intersects_witness:
  "recombine_ecoregions example_intersections [] [stored_southern_rockies] =
     Inr [\<lparr>source = ''US_Eco_Level3'', contextual_identifier = ''US_L3CODE:21'',
           common_name = ''Southern Rockies'',
           part_of_identifiers = Some [''NA_L1CODE:6'', ''NA_L2CODE:6.2'', ''NA_L3CODE:6.2.14''],
           x = 0, y = 0, wikidata_id = Some ''Q7570202'',
           admin_intersects = [Str ''Q1261'', Str ''Q1522''],
           country_intersects = [Str ''Q30'']\<rparr>]"
proof -
  have c1: "''contextual_identifier'' \<in> set (columns example_intersections)"
    and c2: "''admin_id'' \<in> set (columns example_intersections)"
    and c3: "''country_id'' \<in> set (columns example_intersections)"
    by (simp_all add: example_intersections_def)
  show ?thesis
    using assembler_intersects [OF c1 c2 c3, of "[]" "[stored_southern_rockies]"]
    by (simp only: assembler_example)
qed

text \<open>
  On a table with the columns of the SQL shown in the notebook (\<^verbatim>\<open>boundary_name\<close>,
  \<^verbatim>\<open>wikidata_id\<close>, \<^verbatim>\<open>contextual_identifier\<close>) the Result Assembler raises KeyError.
\<close>

lemma recombine_on_documented_view:
  "recombine_ecoregions original_intersections [] [stored_southern_rockies]
     = Inl (KeyError ''admin_id'')"
  by code_simp

lemma refactored_of_original:
  "boundary_intersects_list df k ''wikidata_id'' =
     (case original_boundary_intersects_list df k of
        Inl e \<Rightarrow> Inl e
      | Inr ids \<Rightarrow> Inr (list_set ids))"
  by (simp add: original_boundary_intersects_list_def boundary_intersects_list_def
        split: sum.splits)

text \<open>
  C9. Asked for the column the first version lists, the function of the suite
  fails where the first version fails, and where the first version returns a list it
  returns the values of that list, each once: the same set of identifiers without
  repetitions, and the same list up to order when the first version's list has no
  repetition.
\<close>

theorem refactored_lists_distinct_values:
  "(\<forall>e. original_boundary_intersects_list df k = Inl e
        \<longrightarrow> boundary_intersects_list df k ''wikidata_id'' = Inl e)
   \<and> (\<forall>ids. original_boundary_intersects_list df k = Inr ids
        \<longrightarrow> (\<exists>ids'. boundary_intersects_list df k ''wikidata_id'' = Inr ids'
              \<and> set ids' = set ids \<and> distinct ids'
              \<and> (distinct ids \<longrightarrow> mset ids' = mset ids)))"
  unfolding refactored_of_original
  by (simp add: list_set_def distinct_remdups_id)

lemma original_example:
  "original_boundary_intersects_list original_intersections ''US_L3CODE:21''
     = Inr [Str ''Q1261'', Str ''Q1522'']"
  "boundary_intersects_list original_intersections ''US_L3CODE:21'' ''wikidata_id''
     = Inr [Str ''Q1261'', Str ''Q1522'']"
  by code_simp+

theorem refactored_lists_distinct_values_witness:
  "original_boundary_intersects_list original_intersections ''US_L3CODE:21''
     = Inr [Str ''Q1261'', Str ''Q1522'']
   \<and> boundary_intersects_list original_intersections ''US_L3CODE:21'' ''wikidata_id''
     = Inr [Str ''Q1261'', Str ''Q1522'']"
  using refactored_lists_distinct_values [of original_intersections "''US_L3CODE:21''"]
  by (simp only: original_example simp_thms)

text \<open>
  On the table of the first version, for the ecoregion that two unresolved boundaries
  intersect, the first version lists None twice and the function of the suite once; with
  its default column \<^verbatim>\<open>admin_id\<close> the function of the suite raises KeyError there.
\<close>

theorem refactored_differs_counterexample:
  "original_boundary_intersects_list original_intersections ''NA_L1CODE:10'' = Inr [PyNone, PyNone]
   \<and> boundary_intersects_list original_intersections ''NA_L1CODE:10'' ''wikidata_id'' = Inr [PyNone]
   \<and> boundary_intersects_list original_intersections ''NA_L1CODE:10'' ''admin_id''
       = Inl (KeyError ''admin_id'')"
  by code_simp

section \<open>Properties of the boundary Dataset Combiner\<close>








end
